theory Spec2Isabelle
  imports Main
begin

section \<open>Batching and padding utilities (yoyodyne/data/batches.py)\<close>

text \<open>
  The module pads a list of token-index sequences to a common length and groups the
  padded arrays into a batch. A one-dimensional tensor of 64-bit integers is a list of
  integers, a two-dimensional one a list of rows. Python integers are unbounded, so the
  sentinel \<^verbatim>\<open>pad_idx\<close>, the lengths and the requested padding length are of type
  \<open>int\<close>; where the tensor library narrows such a value to 64 bits or to a double, the
  narrowing and its failure are written out.

  The operations of Python and of the tensor library that the module calls are
  written out below with the behaviour the module relies on, failures included:
  \<^item> \<^verbatim>\<open>nn.functional.pad(t, (0, k), "constant", v)\<close> takes \<open>k\<close> as a 64-bit size and
    the fill value \<open>v\<close> as a double. It raises when the resulting size would be
    negative; it removes \<open>-k\<close> elements from the right when \<open>k\<close> is not positive, and
    the fill value is then not used; otherwise it appends \<open>k\<close> copies of the double,
    converted to a 64-bit integer, and raises when the double has no such conversion;
  \<^item> \<^verbatim>\<open>torch.stack\<close> raises a runtime error on an empty list and on tensors of
    different sizes;
  \<^item> comparing a tensor of 64-bit integers with a Python integer raises an overflow
    error when the integer does not fit in 64 bits;
  \<^item> the builtin \<^verbatim>\<open>max\<close> raises a value error on an empty iterable.

  Storage is not part of the model: a row is a list however long, where the program
  needs memory for it.
\<close>

subsection \<open>Errors and callbacks\<close>

datatype error = ValueError | RuntimeError | OverflowError | CallbackError

text \<open>
  The optional \<^verbatim>\<open>length_msg_callback\<close> is code of the caller. All the constructor
  can observe of a call is whether it returns or raises; the calls made are recorded in
  a trace, in order, so that how often and with which argument the callback ran is part
  of the constructor's result.
\<close>

datatype cb_result = Returns | Raises

type_synonym callback = "int \<Rightarrow> cb_result"

definition quiet_callback :: callback where
  "quiet_callback n = Returns"

definition limit_callback :: "int \<Rightarrow> callback" where
  "limit_callback bound n = (if bound < n then Raises else Returns)"

fun returns_normally :: "callback option \<Rightarrow> int \<Rightarrow> bool" where
  "returns_normally None n = True"
| "returns_normally (Some cb) n = (cb n = Returns)"

subsection \<open>Library operations\<close>

text \<open>The values of a signed 64-bit integer.\<close>

definition int64 :: "int \<Rightarrow> bool" where
  "int64 x = (- (2 ^ 63) \<le> x \<and> x < 2 ^ 63)"

text \<open>
  A Python integer passed where the library expects a double is converted to the
  nearest double, ties going to the even significand of 53 bits; an integer whose
  nearest double would be infinite raises an overflow error. The double of an integer
  is itself an integer, which is what \<open>to_double\<close> returns: the integer itself up to
  \<open>2 ^ 53\<close> in magnitude, and beyond that the integer with all but its leading 53 bits
  rounded away.
\<close>

function bit_length :: "int \<Rightarrow> nat" where
  "bit_length a = (if a \<le> 0 then 0 else Suc (bit_length (a div 2)))"
  by pat_completeness auto
termination
  by (relation "measure nat") auto

declare bit_length.simps [simp del]

definition to_double :: "int \<Rightarrow> error + int" where
  "to_double x =
     (let a = \<bar>x\<bar> in
      if a \<le> 2 ^ 53 then Inr x
      else
        (let e = bit_length a - 53;
             q = a div 2 ^ e;
             r = a mod 2 ^ e;
             h = 2 ^ (e - 1);
             m = (if h < r \<or> (r = h \<and> odd q) then q + 1 else q);
             d = m * 2 ^ e
         in if 2 ^ 1024 \<le> d then Inl OverflowError else Inr (sgn x * d)))"

fun py_max :: "int list \<Rightarrow> error + int" where
  "py_max [] = Inl ValueError"
| "py_max (x # xs) = Inr (fold max xs x)"

text \<open>
  \<^verbatim>\<open>nn.functional.pad(tensor, (0, padding), "constant", v)\<close>. The arguments are
  converted first; then the new size is checked; a padding that is not positive
  narrows the tensor and never looks at the fill value; a positive one fills the new
  cells with the double as a 64-bit integer.
\<close>

definition functional_pad :: "int list \<Rightarrow> int \<Rightarrow> int \<Rightarrow> error + int list" where
  "functional_pad tensor padding v =
     (if int64 padding then
        (case to_double v of
           Inl e \<Rightarrow> Inl e
         | Inr d \<Rightarrow>
             (let new_dim = int (length tensor) + padding in
              if new_dim < 0 then Inl RuntimeError
              else if padding \<le> 0 then Inr (take (nat new_dim) tensor)
              else if int64 d then Inr (tensor @ replicate (nat padding) d)
              else Inl RuntimeError))
      else Inl RuntimeError)"

fun torch_stack :: "int list list \<Rightarrow> error + int list list" where
  "torch_stack [] = Inl RuntimeError"
| "torch_stack (t # ts) =
     (if list_all (\<lambda>r. length r = length t) ts then Inr (t # ts) else Inl RuntimeError)"

subsection \<open>PaddedTensor\<close>

record PaddedTensor =
  pad_idx :: int
  padded :: "int list list"

text \<open>\<^verbatim>\<open>pad_tensor(self, tensor, pad_max)\<close>; the first argument is \<^verbatim>\<open>self.pad_idx\<close>.\<close>

definition pad_tensor :: "int \<Rightarrow> int list \<Rightarrow> int \<Rightarrow> error + int list" where
  "pad_tensor pidx tensor pad_max =
     (let padding = pad_max - int (length tensor) in functional_pad tensor padding pidx)"

text \<open>
  The list comprehension over \<^verbatim>\<open>tensorlist\<close>: the rows are padded from left to right
  and the first failure ends it.
\<close>

fun pad_all :: "int \<Rightarrow> int \<Rightarrow> int list list \<Rightarrow> error + int list list" where
  "pad_all pidx pad_len [] = Inr []"
| "pad_all pidx pad_len (t # ts) =
     (case pad_tensor pidx t pad_len of
        Inl e \<Rightarrow> Inl e
      | Inr r \<Rightarrow>
          (case pad_all pidx pad_len ts of
             Inl e \<Rightarrow> Inl e
           | Inr rs \<Rightarrow> Inr (r # rs)))"

text \<open>The padded length the constructor settles on (lines 43 and 44).\<close>

fun chosen_pad_len :: "int list list \<Rightarrow> int option \<Rightarrow> error + int" where
  "chosen_pad_len tensorlist None = py_max (map (\<lambda>tensor. int (length tensor)) tensorlist)"
| "chosen_pad_len tensorlist (Some n) = Inr n"

text \<open>Lines 47 to 56: store the sentinel, pad every row, stack, register the buffer.\<close>

definition stack_padded :: "int \<Rightarrow> int \<Rightarrow> int list list \<Rightarrow> error + PaddedTensor" where
  "stack_padded pidx pad_len tensorlist =
     (case pad_all pidx pad_len tensorlist of
        Inl e \<Rightarrow> Inl e
      | Inr rows \<Rightarrow>
          (case torch_stack rows of
             Inl e \<Rightarrow> Inl e
           | Inr arr \<Rightarrow> Inr \<lparr>pad_idx = pidx, padded = arr\<rparr>))"

text \<open>
  The constructor. Its result is the trace of callback calls together with either the
  exception raised or the object built.
\<close>

definition PaddedTensor_init ::
  "int list list \<Rightarrow> int \<Rightarrow> callback option \<Rightarrow> int option \<Rightarrow> int list \<times> (error + PaddedTensor)"
where
  "PaddedTensor_init tensorlist pidx length_msg_callback pad_len =
     (case chosen_pad_len tensorlist pad_len of
        Inl e \<Rightarrow> ([], Inl e)
      | Inr n \<Rightarrow>
          (case length_msg_callback of
             None \<Rightarrow> ([], stack_padded pidx n tensorlist)
           | Some cb \<Rightarrow>
               (case cb n of
                  Raises \<Rightarrow> ([n], Inl CallbackError)
                | Returns \<Rightarrow> ([n], stack_padded pidx n tensorlist))))"

text \<open>
  \<^verbatim>\<open>self.padded == self.pad_idx\<close>: the stored sentinel is the Python integer given to
  the constructor, and the comparison raises when it does not fit in 64 bits.
\<close>

definition mask :: "PaddedTensor \<Rightarrow> error + bool list list" where
  "mask self =
     (if int64 (pad_idx self) then Inr (map (map (\<lambda>x. x = pad_idx self)) (padded self))
      else Inl OverflowError)"

definition PaddedTensor_len :: "PaddedTensor \<Rightarrow> int" where
  "PaddedTensor_len self = int (length (padded self))"

text \<open>
  \<^verbatim>\<open>(self.mask == 0).sum(dim=1)\<close>: the mask is evaluated first, and its exception
  is the method's; a boolean compared with \<open>0\<close> is true where the boolean is false,
  and the sum along a row counts the true entries.
\<close>

definition bool_to_int :: "bool \<Rightarrow> int" where
  "bool_to_int b = (if b then 1 else 0)"

definition eq_zero :: "bool \<Rightarrow> bool" where
  "eq_zero b = (bool_to_int b = 0)"

definition lengths :: "PaddedTensor \<Rightarrow> error + int list" where
  "lengths self =
     (case mask self of
        Inl e \<Rightarrow> Inl e
      | Inr m \<Rightarrow> Inr (map (\<lambda>row. sum_list (map (\<lambda>b. bool_to_int (eq_zero b)) row)) m))"

subsection \<open>PaddedBatch\<close>

record PaddedBatch =
  source :: PaddedTensor
  features :: "PaddedTensor option"
  target :: "PaddedTensor option"

definition PaddedBatch_init ::
  "PaddedTensor \<Rightarrow> PaddedTensor option \<Rightarrow> PaddedTensor option \<Rightarrow> PaddedBatch" where
  "PaddedBatch_init src feats tgt = \<lparr>source = src, features = feats, target = tgt\<rparr>"

definition has_features :: "PaddedBatch \<Rightarrow> bool" where
  "has_features self = (features self \<noteq> None)"

definition has_target :: "PaddedBatch \<Rightarrow> bool" where
  "has_target self = (target self \<noteq> None)"

definition PaddedBatch_len :: "PaddedBatch \<Rightarrow> int" where
  "PaddedBatch_len self = PaddedTensor_len (source self)"

section \<open>Properties\<close>

subsection \<open>The library operations and the constructor, step by step\<close>

text \<open>
  Python's \<^verbatim>\<open>max\<close> scans the values from left to right; on a non-empty list this is the
  greatest element. An integer of magnitude at most \<open>2 ^ 53\<close> is its own double and fits
  in 64 bits; beyond that the double may be another integer, and may leave the 64-bit
  range.
\<close>

lemma py_max_Max:
  assumes "xs \<noteq> []"
  shows "py_max xs = Inr (Max (set xs))"
proof (cases xs)
  case Nil
  with assms show ?thesis by simp
next
  case (Cons y ys)
  have "Max (set (y # ys)) = fold max ys y"
    by (rule Max.set_eq_fold)
  then show ?thesis using Cons by simp
qed

lemma to_double_exact: "\<bar>v\<bar> \<le> 2 ^ 53 \<Longrightarrow> to_double v = Inr v"
  by (simp add: to_double_def)

lemma exact_is_int64: "\<bar>v\<bar> \<le> 2 ^ 53 \<Longrightarrow> int64 v"
  unfolding int64_def by simp linarith

lemma to_double_rounds_to_even: "to_double (2 ^ 53 + 1) = Inr (2 ^ 53)"
  by (simp add: to_double_def bit_length.simps Let_def)

lemma to_double_leaves_int64: "to_double (2 ^ 63 - 1) = Inr (2 ^ 63)"
  by (simp add: to_double_def bit_length.simps Let_def)

lemma pad_tensor_row:
  assumes "0 \<le> n" and "n < 2 ^ 63" and "int (length t) < 2 ^ 63" and "\<bar>p\<bar> \<le> 2 ^ 53"
  shows "pad_tensor p t n = Inr (take (nat n) t @ replicate (nat n - length t) p)"
proof -
  have "int64 (n - int (length t))" using assms(1-3) by (simp add: int64_def)
  then show ?thesis
    using assms(1) to_double_exact[OF assms(4)] exact_is_int64[OF assms(4)]
    by (auto simp: pad_tensor_def functional_pad_def Let_def nat_diff_distrib')
qed

lemma pad_tensor_negative: "n < 0 \<Longrightarrow> \<exists>e. pad_tensor p t n = Inl e"
  by (simp add: pad_tensor_def functional_pad_def Let_def split: sum.split)

lemma pad_tensor_length: "pad_tensor p t n = Inr r \<Longrightarrow> int (length r) = n"
  by (auto simp: pad_tensor_def functional_pad_def Let_def split: if_splits sum.splits)

lemma pad_all_rows:
  assumes "0 \<le> n" and "n < 2 ^ 63" and "\<bar>p\<bar> \<le> 2 ^ 53"
  shows "list_all (\<lambda>t. int (length t) < 2 ^ 63) ts \<Longrightarrow>
    pad_all p n ts = Inr (map (\<lambda>t. take (nat n) t @ replicate (nat n - length t) p) ts)"
  by (induction ts) (simp_all add: pad_tensor_row[OF assms(1,2) _ assms(3)])

lemma pad_all_lengths:
  "pad_all p n ts = Inr rows \<Longrightarrow>
   length rows = length ts \<and> list_all (\<lambda>r. int (length r) = n) rows"
proof (induction ts arbitrary: rows)
  case Nil
  then show ?case by simp
next
  case (Cons t ts)
  then show ?case
    by (auto split: sum.splits dest: pad_tensor_length)
qed

lemma torch_stack_uniform:
  "rows \<noteq> [] \<Longrightarrow> list_all (\<lambda>r. length r = k) rows \<Longrightarrow> torch_stack rows = Inr rows"
  by (cases rows) (auto simp: list_all_iff)

lemma torch_stack_same: "torch_stack rows = Inr arr \<Longrightarrow> arr = rows"
  by (cases rows) (auto split: if_splits)

lemma stack_padded_rows:
  assumes "0 \<le> n" and "n < 2 ^ 63" and "\<bar>p\<bar> \<le> 2 ^ 53"
    and "ts \<noteq> []" and "list_all (\<lambda>t. int (length t) < 2 ^ 63) ts"
  shows "stack_padded p n ts =
    Inr \<lparr>pad_idx = p, padded = map (\<lambda>t. take (nat n) t @ replicate (nat n - length t) p) ts\<rparr>"
proof -
  let ?rows = "map (\<lambda>t. take (nat n) t @ replicate (nat n - length t) p) ts"
  have "list_all (\<lambda>r. length r = nat n) ?rows"
    by (auto simp: list_all_iff)
  moreover have "?rows \<noteq> []" using assms(4) by simp
  ultimately have "torch_stack ?rows = Inr ?rows"
    by (rule torch_stack_uniform[rotated])
  then show ?thesis
    by (simp add: stack_padded_def pad_all_rows[OF assms(1,2,3,5)])
qed

lemma stack_padded_lengths:
  assumes "stack_padded p n ts = Inr self"
  shows "pad_idx self = p" and "length (padded self) = length ts"
    and "list_all (\<lambda>r. int (length r) = n) (padded self)"
proof -
  obtain rows arr where rows: "pad_all p n ts = Inr rows"
    and arr: "torch_stack rows = Inr arr"
    and self: "self = \<lparr>pad_idx = p, padded = arr\<rparr>"
    using assms by (auto simp: stack_padded_def split: sum.splits)
  have same: "arr = rows" using arr by (rule torch_stack_same)
  show "pad_idx self = p" using self by simp
  show "length (padded self) = length ts"
    using pad_all_lengths[OF rows] self same by simp
  show "list_all (\<lambda>r. int (length r) = n) (padded self)"
    using pad_all_lengths[OF rows] self same by simp
qed

lemma stack_padded_empty: "stack_padded p n [] = Inl RuntimeError"
  by (simp add: stack_padded_def)

lemma init_built:
  "PaddedTensor_init ts p cb pl = (tr, Inr self) \<Longrightarrow>
   \<exists>n. chosen_pad_len ts pl = Inr n \<and> stack_padded p n ts = Inr self"
  by (auto simp: PaddedTensor_init_def split: sum.splits option.splits cb_result.splits)

lemma init_explicit:
  assumes "0 \<le> n" and "n < 2 ^ 63" and "\<bar>p\<bar> \<le> 2 ^ 53"
    and "ts \<noteq> []" and "list_all (\<lambda>t. int (length t) < 2 ^ 63) ts"
    and "returns_normally cb n"
  shows "PaddedTensor_init ts p cb (Some n) =
    (case cb of None \<Rightarrow> [] | Some f \<Rightarrow> [n],
     Inr \<lparr>pad_idx = p, padded = map (\<lambda>t. take (nat n) t @ replicate (nat n - length t) p) ts\<rparr>)"
  using assms(6)
  by (cases cb) (simp_all add: PaddedTensor_init_def stack_padded_rows[OF assms(1-5)])

lemma rows_fit:
  "list_all (\<lambda>t. int (length t) \<le> n) ts \<Longrightarrow>
   map (\<lambda>t. take (nat n) t @ replicate (nat n - length t) p) ts =
   map (\<lambda>t. t @ replicate (nat n - length t) p) ts"
  by (induction ts) auto

lemma fit_bounded:
  "list_all (\<lambda>t. int (length t) \<le> n) ts \<Longrightarrow> n < 2 ^ 63 \<Longrightarrow>
   list_all (\<lambda>t. int (length t) < 2 ^ 63) ts"
  by (induction ts) auto

lemma fit_nonneg:
  assumes "ts \<noteq> []" and "list_all (\<lambda>t. int (length t) \<le> n) ts"
  shows "0 \<le> n"
proof -
  obtain t where "t \<in> set ts" using assms(1) by (cases ts) auto
  then have "int (length t) \<le> n" using assms(2) by (simp add: list_all_iff)
  then show ?thesis by linarith
qed

lemma init_fitting:
  assumes "ts \<noteq> []" and "list_all (\<lambda>t. int (length t) \<le> n) ts" and "n < 2 ^ 63"
    and "\<bar>p\<bar> \<le> 2 ^ 53" and "returns_normally cb n"
  shows "PaddedTensor_init ts p cb (Some n) =
    (case cb of None \<Rightarrow> [] | Some f \<Rightarrow> [n],
     Inr \<lparr>pad_idx = p, padded = map (\<lambda>t. t @ replicate (nat n - length t) p) ts\<rparr>)"
  using init_explicit[OF fit_nonneg[OF assms(1,2)] assms(3,4,1) fit_bounded[OF assms(2,3)] assms(5)]
    rows_fit[OF assms(2), of p]
  by simp

lemma chosen_default:
  "ts \<noteq> [] \<Longrightarrow> chosen_pad_len ts None = Inr (Max (set (map (\<lambda>t. int (length t)) ts)))"
  by (simp only: chosen_pad_len.simps) (rule py_max_Max, simp)

lemma max_len_bounds:
  assumes "ts \<noteq> []" and "n = Max (set (map (\<lambda>t. int (length t)) ts))"
  shows "0 \<le> n" and "list_all (\<lambda>t. int (length t) \<le> n) ts"
proof -
  show fit: "list_all (\<lambda>t. int (length t) \<le> n) ts"
    using assms(2) by (simp add: list_all_iff)
  show "0 \<le> n" using fit_nonneg[OF assms(1) fit] .
qed

lemma init_default_is_explicit:
  assumes "ts \<noteq> []" and "n = Max (set (map (\<lambda>t. int (length t)) ts))"
  shows "PaddedTensor_init ts p cb None = PaddedTensor_init ts p cb (Some n)"
proof -
  have "chosen_pad_len ts None = Inr n"
    using chosen_default[OF assms(1)] assms(2) by simp
  then show ?thesis
    unfolding PaddedTensor_init_def by (simp only: chosen_pad_len.simps(2))
qed

lemma init_default:
  assumes "ts \<noteq> []" and "n = Max (set (map (\<lambda>t. int (length t)) ts))" and "n < 2 ^ 63"
    and "\<bar>p\<bar> \<le> 2 ^ 53" and "returns_normally cb n"
  shows "PaddedTensor_init ts p cb None =
    (case cb of None \<Rightarrow> [] | Some f \<Rightarrow> [n],
     Inr \<lparr>pad_idx = p, padded = map (\<lambda>t. t @ replicate (nat n - length t) p) ts\<rparr>)"
  using init_default_is_explicit[OF assms(1,2)]
    init_fitting[OF assms(1) max_len_bounds(2)[OF assms(1,2)] assms(3,4,5)]
  by simp

lemma mask_row:
  "p \<notin> set t \<Longrightarrow> j < length t + k \<Longrightarrow> ((t @ replicate k p) ! j = p) = (length t \<le> j)"
  by (auto simp: nth_append)

lemma count_row:
  "p \<notin> set t \<Longrightarrow>
   sum_list (map ((\<lambda>b. bool_to_int (eq_zero b)) \<circ> (\<lambda>x. x = p)) (t @ replicate k p)) = int (length t)"
  by (induction t) (auto simp: bool_to_int_def eq_zero_def sum_list_replicate)

subsection \<open>Sentinels that the tensor cannot hold\<close>

text \<open>
  Three constructions whose sentinel is not a value the padded tensor can hold as it
  is. The sentinel \<open>2 ^ 53 + 1\<close> reaches the padding operation as the double \<open>2 ^ 53\<close>,
  which is what the new cell holds. The sentinel \<open>2 ^ 63 - 1\<close> reaches it as the double
  \<open>2 ^ 63\<close>, which no cell can hold: the construction raises. The sentinel \<open>2 ^ 64\<close>
  is never written when no row needs padding, so the object is built, but its mask
  and its lengths cannot be computed.
\<close>

lemma sentinel_rounded:
  "PaddedTensor_init [[1], [1, 2]] (2 ^ 53 + 1) None None =
     ([], Inr \<lparr>pad_idx = 2 ^ 53 + 1, padded = [[1, 2 ^ 53], [1, 2]]\<rparr>)"
  by (simp add: PaddedTensor_init_def stack_padded_def pad_tensor_def functional_pad_def
      to_double_def bit_length.simps Let_def int64_def)

lemma sentinel_outside_int64:
  "PaddedTensor_init [[1], [1, 2]] (2 ^ 63 - 1) None None = ([], Inl RuntimeError)"
  by (simp add: PaddedTensor_init_def stack_padded_def pad_tensor_def functional_pad_def
      to_double_def bit_length.simps Let_def int64_def)

lemma sentinel_outside_comparison:
  "PaddedTensor_init [[1, 2]] (2 ^ 64) None None =
     ([], Inr \<lparr>pad_idx = 2 ^ 64, padded = [[1, 2]]\<rparr>)
   \<and> mask \<lparr>pad_idx = 2 ^ 64, padded = [[1, 2]]\<rparr> = Inl OverflowError
   \<and> lengths \<lparr>pad_idx = 2 ^ 64, padded = [[1, 2]]\<rparr> = Inl OverflowError"
  by (simp add: PaddedTensor_init_def stack_padded_def pad_tensor_def functional_pad_def
      to_double_def bit_length.simps Let_def int64_def mask_def lengths_def)

subsection \<open>The worked example\<close>

text \<open>
  Claim C9. The input \<open>[[1,2],[1,2,3]]\<close> with sentinel \<open>0\<close>, no requested length and no
  callback is built without error into the array \<open>[[1,2,0],[1,2,3]]\<close>; its mask is
  \<open>[[F,F,T],[F,F,F]]\<close> and its lengths are \<open>[2,3]\<close>.
\<close>

theorem padded_tensor_example:
  "PaddedTensor_init [[1, 2], [1, 2, 3]] 0 None None =
     ([], Inr \<lparr>pad_idx = 0, padded = [[1, 2, 0], [1, 2, 3]]\<rparr>)
   \<and> mask \<lparr>pad_idx = 0, padded = [[1, 2, 0], [1, 2, 3]]\<rparr> =
     Inr [[False, False, True], [False, False, False]]
   \<and> lengths \<lparr>pad_idx = 0, padded = [[1, 2, 0], [1, 2, 3]]\<rparr> = Inr [2, 3]"
  by (simp add: PaddedTensor_init_def stack_padded_def pad_tensor_def functional_pad_def
      to_double_def int64_def mask_def lengths_def bool_to_int_def eq_zero_def)

subsection \<open>Batch length\<close>

text \<open>
  Claim C5. The length of a batch is the length of its source: for any batch, and for a
  batch built with features absent or present and target absent or present, in all
  four combinations.
\<close>

theorem batch_len_is_source_len:
  "PaddedBatch_len self = PaddedTensor_len (source self)
   \<and> PaddedBatch_len (PaddedBatch_init src None None) = PaddedTensor_len src
   \<and> PaddedBatch_len (PaddedBatch_init src (Some feats) None) = PaddedTensor_len src
   \<and> PaddedBatch_len (PaddedBatch_init src None (Some tgt)) = PaddedTensor_len src
   \<and> PaddedBatch_len (PaddedBatch_init src (Some feats) (Some tgt)) = PaddedTensor_len src"
  by (simp add: PaddedBatch_len_def PaddedBatch_init_def)

subsection \<open>The mask\<close>

text \<open>
  Claim C8. The mask is the comparison of the padded array with the sentinel. For any
  object of the class, hence for every constructed one: the comparison returns a mask
  whenever the sentinel fits in 64 bits; and whenever it returns a mask, the mask has
  the shape of the padded array and its entry at row \<open>i\<close>, column \<open>j\<close> holds exactly
  when the entry of the padded array there equals the sentinel.
\<close>

theorem mask_is_sentinel_equality:
  assumes "i < length (padded self)" and "j < length (padded self ! i)"
  shows "(int64 (pad_idx self) \<longrightarrow> (\<exists>m. mask self = Inr m))
    \<and> (\<forall>m. mask self = Inr m \<longrightarrow>
          length m = length (padded self)
          \<and> length (m ! i) = length (padded self ! i)
          \<and> m ! i ! j = (padded self ! i ! j = pad_idx self))"
  using assms by (auto simp: mask_def split: if_splits)

text \<open>The array of the worked example, at row \<open>0\<close> and column \<open>2\<close>.\<close>

theorem mask_is_sentinel_equality_witness:
  "(0::nat) < length (padded \<lparr>pad_idx = 0, padded = [[1, 2, 0], [1, 2, 3]]\<rparr>)
   \<and> (2::nat) < length (padded \<lparr>pad_idx = 0, padded = [[1, 2, 0], [1, 2, 3]]\<rparr> ! 0)
   \<and> int64 (pad_idx \<lparr>pad_idx = 0, padded = [[1, 2, 0], [1, 2, 3]]\<rparr>)
   \<and> (\<exists>m. mask \<lparr>pad_idx = 0, padded = [[1, 2, 0], [1, 2, 3]]\<rparr> = Inr m
         \<and> length (m ! 0) = 3 \<and> m ! 0 ! 2)
   \<and> padded \<lparr>pad_idx = 0, padded = [[1, 2, 0], [1, 2, 3]]\<rparr> ! 0 ! 2 = 0"
proof -
  let ?self = "\<lparr>pad_idx = 0, padded = [[1, 2, 0], [1, 2, 3]]\<rparr>"
  have i: "(0::nat) < length (padded ?self)" by simp
  have j: "(2::nat) < length (padded ?self ! 0)" by simp
  have fits: "int64 (pad_idx ?self)" by (simp add: int64_def)
  obtain m where m: "mask ?self = Inr m"
    using mask_is_sentinel_equality[OF i j] fits by blast
  then have "length (m ! 0) = length (padded ?self ! 0)"
    and "m ! 0 ! 2 = (padded ?self ! 0 ! 2 = pad_idx ?self)"
    using mask_is_sentinel_equality[OF i j] by blast+
  then have "length (m ! 0) = 3" and "m ! 0 ! 2" by simp_all
  with m i j fits show ?thesis by simp
qed

text \<open>
  Claim C1, as stated: the mask is true exactly from the original length of the row
  on. The sequence \<open>[0,1]\<close> with sentinel \<open>0\<close> refutes it: position \<open>0\<close> is masked
  although it lies before the original length \<open>2\<close>, because the mask compares values
  and cannot tell a sentinel in the data from one added by padding.
\<close>

theorem mask_sentinel_in_data_counterexample:
  "PaddedTensor_init [[0, 1]] 0 None None = ([], Inr \<lparr>pad_idx = 0, padded = [[0, 1]]\<rparr>)
   \<and> mask \<lparr>pad_idx = 0, padded = [[0, 1]]\<rparr> = Inr [[True, False]]
   \<and> [[True, False]] ! 0 ! 0
   \<and> \<not> length ([[0, 1::int]] ! 0) \<le> 0"
  by (simp add: PaddedTensor_init_def stack_padded_def pad_tensor_def functional_pad_def
      to_double_def int64_def mask_def)

text \<open>
  Claim C1, amended. Take a non-empty list of sequences, of lengths below \<open>2 ^ 63\<close>,
  none of which contains the sentinel; a sentinel of magnitude at most \<open>2 ^ 53\<close>, so
  that the padding operation writes the sentinel itself; no requested length; and a
  callback (if any) that returns. Then the construction succeeds, the mask is
  computed and has one row per sequence, each of the padded length \<open>n\<close> (the maximum
  length), and for every row \<open>i\<close> and position \<open>j < n\<close> the mask holds at \<open>(i, j)\<close>
  exactly when \<open>j\<close> is at least the length of sequence \<open>i\<close>.
\<close>

theorem mask_marks_padding:
  assumes "tensorlist \<noteq> []"
    and "n = Max (set (map (\<lambda>tensor. int (length tensor)) tensorlist))"
    and "n < 2 ^ 63"
    and "\<bar>pidx\<bar> \<le> 2 ^ 53"
    and "returns_normally cb n"
    and "list_all (\<lambda>tensor. pidx \<notin> set tensor) tensorlist"
  shows "\<exists>tr self m. PaddedTensor_init tensorlist pidx cb None = (tr, Inr self)
    \<and> mask self = Inr m
    \<and> length m = length tensorlist
    \<and> (\<forall>i<length tensorlist. length (m ! i) = nat n
          \<and> (\<forall>j<nat n. m ! i ! j = (length (tensorlist ! i) \<le> j)))"
proof -
  let ?self = "\<lparr>pad_idx = pidx,
    padded = map (\<lambda>t. t @ replicate (nat n - length t) pidx) tensorlist\<rparr>"
  let ?m = "map (\<lambda>t. map (\<lambda>x. x = pidx) (t @ replicate (nat n - length t) pidx)) tensorlist"
  have fit: "list_all (\<lambda>t. int (length t) \<le> n) tensorlist"
    using max_len_bounds[OF assms(1,2)] by simp
  have mask: "mask ?self = Inr ?m"
    using exact_is_int64[OF assms(4)] by (simp add: mask_def comp_def del: map_append)
  have "length (?m ! i) = nat n
      \<and> (\<forall>j<nat n. ?m ! i ! j = (length (tensorlist ! i) \<le> j))"
    if "i < length tensorlist" for i
  proof -
    let ?t = "tensorlist ! i"
    have mem: "?t \<in> set tensorlist" using that by simp
    have le: "length ?t \<le> nat n" using fit mem by (auto simp: list_all_iff)
    have clean: "pidx \<notin> set ?t" using assms(6) mem by (auto simp: list_all_iff)
    have row: "?m ! i = map (\<lambda>x. x = pidx) (?t @ replicate (nat n - length ?t) pidx)"
      using that by (simp only: nth_map)
    have len: "length (?m ! i) = nat n" unfolding row using le by simp
    have "?m ! i ! j = (length ?t \<le> j)" if "j < nat n" for j
    proof -
      have "j < length ?t + (nat n - length ?t)" using that le by simp
      then have "((?t @ replicate (nat n - length ?t) pidx) ! j = pidx) = (length ?t \<le> j)"
        by (rule mask_row[OF clean])
      moreover have "j < length (?t @ replicate (nat n - length ?t) pidx)"
        using that le by simp
      ultimately show ?thesis by (simp only: row nth_map)
    qed
    with len show ?thesis by blast
  qed
  moreover have "length ?m = length tensorlist" by simp
  ultimately show ?thesis
    using init_default[OF assms(1-5)] mask by blast
qed

theorem mask_marks_padding_witness:
  "[[1, 2], [1, 2, 3::int]] \<noteq> []
   \<and> (3::int) = Max (set (map (\<lambda>tensor. int (length tensor)) [[1, 2], [1, 2, 3::int]]))
   \<and> (3::int) < 2 ^ 63
   \<and> \<bar>0::int\<bar> \<le> 2 ^ 53
   \<and> returns_normally None 3
   \<and> list_all (\<lambda>tensor. (0::int) \<notin> set tensor) [[1, 2], [1, 2, 3]]
   \<and> (\<exists>tr self m. PaddedTensor_init [[1, 2], [1, 2, 3]] 0 None None = (tr, Inr self)
         \<and> mask self = Inr m
         \<and> \<not> m ! 0 ! 1 \<and> m ! 0 ! 2 \<and> \<not> m ! 1 ! 2)"
proof -
  have h1: "[[1, 2], [1, 2, 3::int]] \<noteq> []" by simp
  have h2: "(3::int) = Max (set (map (\<lambda>tensor. int (length tensor)) [[1, 2], [1, 2, 3::int]]))"
    by simp
  have h3: "(3::int) < 2 ^ 63" by simp
  have h4: "\<bar>0::int\<bar> \<le> 2 ^ 53" by simp
  have h5: "returns_normally None 3" by simp
  have h6: "list_all (\<lambda>tensor. (0::int) \<notin> set tensor) [[1, 2], [1, 2, 3]]" by simp
  obtain tr self m where
    built: "PaddedTensor_init [[1, 2], [1, 2, 3]] 0 None None = (tr, Inr self)"
    and m: "mask self = Inr m"
    and cells: "\<forall>i<length [[1, 2], [1, 2, 3::int]]. length (m ! i) = nat 3
          \<and> (\<forall>j<nat 3. m ! i ! j = (length ([[1, 2], [1, 2, 3::int]] ! i) \<le> j))"
    using mask_marks_padding[OF h1 h2 h3 h4 h5 h6] by blast
  have "\<not> m ! 0 ! 1" and "m ! 0 ! 2" and "\<not> m ! 1 ! 2"
    using cells by simp_all
  with built m h1 h2 h3 h4 h5 h6 show ?thesis by blast
qed

subsection \<open>Lengths\<close>

text \<open>
  Claim C2, as stated: \<^verbatim>\<open>lengths()\<close> returns the original length of every sequence.
  With sentinel \<open>5\<close>, the sequence \<open>[5,7,5]\<close> of length \<open>3\<close> is reported with length
  \<open>1\<close>: the method counts the entries that differ from the sentinel.
\<close>

theorem lengths_sentinel_in_data_counterexample:
  "PaddedTensor_init [[5, 7, 5], [7]] 5 None None =
     ([], Inr \<lparr>pad_idx = 5, padded = [[5, 7, 5], [7, 5, 5]]\<rparr>)
   \<and> lengths \<lparr>pad_idx = 5, padded = [[5, 7, 5], [7, 5, 5]]\<rparr> = Inr [1, 1]
   \<and> int (length ([[5, 7, 5], [7::int]] ! 0)) = 3"
  by (simp add: PaddedTensor_init_def stack_padded_def pad_tensor_def functional_pad_def
      to_double_def int64_def mask_def lengths_def bool_to_int_def eq_zero_def numeral_2_eq_2)

text \<open>
  Claim C2, amended. Take a non-empty list of sequences, of lengths below \<open>2 ^ 63\<close>,
  none of which contains the sentinel; a sentinel of magnitude at most \<open>2 ^ 53\<close>; no
  requested length; and a callback (if any) that returns. Then the construction
  succeeds and \<^verbatim>\<open>lengths()\<close> returns the list of the original lengths.
\<close>

theorem lengths_are_original:
  assumes "tensorlist \<noteq> []"
    and "n = Max (set (map (\<lambda>tensor. int (length tensor)) tensorlist))"
    and "n < 2 ^ 63"
    and "\<bar>pidx\<bar> \<le> 2 ^ 53"
    and "returns_normally cb n"
    and "list_all (\<lambda>tensor. pidx \<notin> set tensor) tensorlist"
  shows "\<exists>tr self. PaddedTensor_init tensorlist pidx cb None = (tr, Inr self)
    \<and> lengths self = Inr (map (\<lambda>tensor. int (length tensor)) tensorlist)"
proof -
  let ?self = "\<lparr>pad_idx = pidx,
    padded = map (\<lambda>t. t @ replicate (nat n - length t) pidx) tensorlist\<rparr>"
  have "lengths ?self = Inr (map (\<lambda>tensor. int (length tensor)) tensorlist)"
    using assms(6) exact_is_int64[OF assms(4)]
    by (simp add: lengths_def mask_def list_all_iff count_row del: map_append)
  then show ?thesis
    using init_default[OF assms(1-5)] by blast
qed

theorem lengths_are_original_witness:
  "[[1, 2], [1, 2, 3::int]] \<noteq> []
   \<and> (3::int) = Max (set (map (\<lambda>tensor. int (length tensor)) [[1, 2], [1, 2, 3::int]]))
   \<and> (3::int) < 2 ^ 63
   \<and> \<bar>0::int\<bar> \<le> 2 ^ 53
   \<and> returns_normally (Some (limit_callback 3)) 3
   \<and> list_all (\<lambda>tensor. (0::int) \<notin> set tensor) [[1, 2], [1, 2, 3]]
   \<and> (\<exists>tr self. PaddedTensor_init [[1, 2], [1, 2, 3]] 0 (Some (limit_callback 3)) None = (tr, Inr self)
         \<and> lengths self = Inr [2, 3])"
proof -
  have h1: "[[1, 2], [1, 2, 3::int]] \<noteq> []" by simp
  have h2: "(3::int) = Max (set (map (\<lambda>tensor. int (length tensor)) [[1, 2], [1, 2, 3::int]]))"
    by simp
  have h3: "(3::int) < 2 ^ 63" by simp
  have h4: "\<bar>0::int\<bar> \<le> 2 ^ 53" by simp
  have h5: "returns_normally (Some (limit_callback 3)) 3" by (simp add: limit_callback_def)
  have h6: "list_all (\<lambda>tensor. (0::int) \<notin> set tensor) [[1, 2], [1, 2, 3]]" by simp
  show ?thesis
    using lengths_are_original[OF h1 h2 h3 h4 h5 h6] h1 h2 h3 h4 h5 h6 by simp
qed

subsection \<open>The padded length\<close>

text \<open>
  Claim C3. For a non-empty list of sequences and no requested length, the padded
  length chosen is the maximum \<open>n\<close> of the sequences' lengths, and whatever the sentinel
  and the callback, every array that the construction returns has one row per sequence
  and every row of it has length \<open>n\<close>. An array is returned at least when the
  callback (if any) returns, the sentinel has magnitude at most \<open>2 ^ 53\<close> and \<open>n\<close> is
  below \<open>2 ^ 63\<close>; a callback that raises when it is told \<open>n\<close> ends the construction
  after that single call.
\<close>

theorem default_pad_len_is_max:
  assumes "tensorlist \<noteq> []"
    and "n = Max (set (map (\<lambda>tensor. int (length tensor)) tensorlist))"
  shows "chosen_pad_len tensorlist None = Inr n
    \<and> (\<forall>tr self. PaddedTensor_init tensorlist pidx cb None = (tr, Inr self) \<longrightarrow>
          length (padded self) = length tensorlist
          \<and> list_all (\<lambda>row. int (length row) = n) (padded self))
    \<and> (returns_normally cb n \<and> \<bar>pidx\<bar> \<le> 2 ^ 53 \<and> n < 2 ^ 63 \<longrightarrow>
          (\<exists>tr self. PaddedTensor_init tensorlist pidx cb None = (tr, Inr self)))
    \<and> (\<not> returns_normally cb n \<longrightarrow>
          PaddedTensor_init tensorlist pidx cb None = ([n], Inl CallbackError))"
proof -
  have chosen: "chosen_pad_len tensorlist None = Inr n"
    using chosen_default[OF assms(1)] assms(2) by simp
  have rows: "length (padded self) = length tensorlist
      \<and> list_all (\<lambda>row. int (length row) = n) (padded self)"
    if returned: "PaddedTensor_init tensorlist pidx cb None = (tr, Inr self)" for tr self
  proof -
    obtain k where k: "chosen_pad_len tensorlist None = Inr k"
      and stacked: "stack_padded pidx k tensorlist = Inr self"
      using init_built[OF returned] by blast
    have "k = n" using k chosen by simp
    then show ?thesis
      using stack_padded_lengths(2,3)[OF stacked] by simp
  qed
  have built: "\<exists>tr self. PaddedTensor_init tensorlist pidx cb None = (tr, Inr self)"
    if "returns_normally cb n" and "\<bar>pidx\<bar> \<le> 2 ^ 53" and "n < 2 ^ 63"
    using init_default[OF assms that(3,2,1)] by simp
  have raised: "PaddedTensor_init tensorlist pidx cb None = ([n], Inl CallbackError)"
    if "\<not> returns_normally cb n"
  proof (cases cb)
    case None
    with that show ?thesis by simp
  next
    case (Some f)
    with that have "f n = Raises" by (cases "f n") simp_all
    with Some show ?thesis
      unfolding PaddedTensor_init_def by (simp only: chosen) simp
  qed
  from chosen rows built raised show ?thesis by blast
qed

theorem default_pad_len_is_max_witness:
  "[[1, 2], [1, 2, 3::int]] \<noteq> []
   \<and> (3::int) = Max (set (map (\<lambda>tensor. int (length tensor)) [[1, 2], [1, 2, 3::int]]))
   \<and> chosen_pad_len [[1, 2], [1, 2, 3]] None = Inr 3
   \<and> returns_normally (Some quiet_callback) 3 \<and> \<bar>0::int\<bar> \<le> 2 ^ 53 \<and> (3::int) < 2 ^ 63
   \<and> (\<exists>tr self. PaddedTensor_init [[1, 2], [1, 2, 3]] 0 (Some quiet_callback) None = (tr, Inr self)
         \<and> length (padded self) = length [[1, 2], [1, 2, 3::int]]
         \<and> list_all (\<lambda>row. int (length row) = 3) (padded self))
   \<and> \<not> returns_normally (Some (limit_callback 2)) 3
   \<and> PaddedTensor_init [[1, 2], [1, 2, 3]] 0 (Some (limit_callback 2)) None = ([3], Inl CallbackError)"
proof -
  have h1: "[[1, 2], [1, 2, 3::int]] \<noteq> []" by simp
  have h2: "(3::int) = Max (set (map (\<lambda>tensor. int (length tensor)) [[1, 2], [1, 2, 3::int]]))"
    by simp
  have h3: "returns_normally (Some quiet_callback) 3 \<and> \<bar>0::int\<bar> \<le> 2 ^ 53 \<and> (3::int) < 2 ^ 63"
    by (simp add: quiet_callback_def)
  have h4: "\<not> returns_normally (Some (limit_callback 2)) 3" by (simp add: limit_callback_def)
  note quiet = default_pad_len_is_max[OF h1 h2, of 0 "Some quiet_callback"]
  note loud = default_pad_len_is_max[OF h1 h2, of 0 "Some (limit_callback 2)"]
  obtain tr self where
    built: "PaddedTensor_init [[1, 2], [1, 2, 3]] 0 (Some quiet_callback) None = (tr, Inr self)"
    using quiet h3 by blast
  then have "length (padded self) = length [[1, 2], [1, 2, 3::int]]
      \<and> list_all (\<lambda>row. int (length row) = 3) (padded self)"
    using quiet by blast
  moreover have "chosen_pad_len [[1, 2], [1, 2, 3]] None = Inr 3"
    using quiet by blast
  moreover have "PaddedTensor_init [[1, 2], [1, 2, 3]] 0 (Some (limit_callback 2)) None
      = ([3], Inl CallbackError)"
    using loud h4 by blast
  ultimately show ?thesis using built h1 h2 h3 h4 by blast
qed

subsection \<open>Right-padding to a requested length\<close>

text \<open>
  Claim C4, as stated, covers every list of sequences, the empty one included (any
  requested length is at least the length of each of its sequences). For the empty
  list no array is built: stacking an empty list of rows raises.
\<close>

theorem explicit_pad_len_empty_list_counterexample:
  "PaddedTensor_init [] 0 None (Some 3) = ([], Inl RuntimeError)"
  by (simp add: PaddedTensor_init_def stack_padded_def)

text \<open>
  Claim C4, amended. Take a non-empty list of sequences; a requested length
  \<open>pad_len\<close> below \<open>2 ^ 63\<close> and at least the length of each of them; a sentinel of
  magnitude at most \<open>2 ^ 53\<close>, so that the padding operation writes the sentinel
  itself; and a callback (if any) that returns. Then the construction succeeds; row
  \<open>i\<close> of the array is sequence \<open>i\<close> followed by \<open>pad_len - len\<close> copies of the sentinel,
  there is one row per sequence and every row has length \<open>pad_len\<close>.
\<close>

theorem rows_are_right_padded:
  assumes "tensorlist \<noteq> []"
    and "list_all (\<lambda>tensor. int (length tensor) \<le> pad_len) tensorlist"
    and "pad_len < 2 ^ 63"
    and "\<bar>pidx\<bar> \<le> 2 ^ 53"
    and "returns_normally cb pad_len"
  shows "\<exists>tr self. PaddedTensor_init tensorlist pidx cb (Some pad_len) = (tr, Inr self)
    \<and> pad_idx self = pidx
    \<and> padded self =
        map (\<lambda>tensor. tensor @ replicate (nat (pad_len - int (length tensor))) pidx) tensorlist
    \<and> length (padded self) = length tensorlist
    \<and> list_all (\<lambda>row. int (length row) = pad_len) (padded self)"
proof -
  have nn: "0 \<le> pad_len" using fit_nonneg[OF assms(1,2)] .
  let ?rows = "map (\<lambda>t. t @ replicate (nat pad_len - length t) pidx) tensorlist"
  have same: "?rows =
      map (\<lambda>tensor. tensor @ replicate (nat (pad_len - int (length tensor))) pidx) tensorlist"
    using nn by (simp add: nat_diff_distrib')
  have "list_all (\<lambda>row. int (length row) = pad_len) ?rows"
    using assms(2) nn by (auto simp: list_all_iff)
  then show ?thesis
    using init_fitting[OF assms] same by simp
qed

theorem rows_are_right_padded_witness:
  "[[1, 2], [1, 2, 3::int]] \<noteq> []
   \<and> list_all (\<lambda>tensor. int (length tensor) \<le> 4) [[1, 2], [1, 2, 3::int]]
   \<and> (4::int) < 2 ^ 63
   \<and> \<bar>0::int\<bar> \<le> 2 ^ 53
   \<and> returns_normally (Some (limit_callback 4)) 4
   \<and> (\<exists>tr self. PaddedTensor_init [[1, 2], [1, 2, 3]] 0 (Some (limit_callback 4)) (Some 4)
           = (tr, Inr self)
         \<and> padded self = [[1, 2, 0, 0], [1, 2, 3, 0]])"
proof -
  have h1: "[[1, 2], [1, 2, 3::int]] \<noteq> []" by simp
  have h2: "list_all (\<lambda>tensor. int (length tensor) \<le> 4) [[1, 2], [1, 2, 3::int]]" by simp
  have h3: "(4::int) < 2 ^ 63" by simp
  have h4: "\<bar>0::int\<bar> \<le> 2 ^ 53" by simp
  have h5: "returns_normally (Some (limit_callback 4)) 4" by (simp add: limit_callback_def)
  obtain tr self where
    built: "PaddedTensor_init [[1, 2], [1, 2, 3]] 0 (Some (limit_callback 4)) (Some 4) = (tr, Inr self)"
    and rows: "padded self =
      map (\<lambda>tensor. tensor @ replicate (nat (4 - int (length tensor))) 0) [[1, 2], [1, 2, 3]]"
    using rows_are_right_padded[OF h1 h2 h3 h4 h5] by blast
  have "padded self = [[1, 2, 0, 0], [1, 2, 3, 0]]"
    using rows by (simp add: numeral_2_eq_2)
  with built h1 h2 h3 h4 h5 show ?thesis by blast
qed

subsection \<open>A requested length shorter than a sequence\<close>

text \<open>
  Claim C6, as stated, covers every requested length shorter than some sequence, the
  negative ones included. A negative length is rejected: padding the sequence
  \<open>[1,2,3]\<close> to length \<open>-1\<close> asks for a tensor of negative size, and the padding
  operation raises.
\<close>

theorem negative_pad_len_counterexample:
  "(-1::int) < int (length [1, 2, 3::int])
   \<and> PaddedTensor_init [[1, 2, 3]] 0 None (Some (-1)) = ([], Inl RuntimeError)"
  by (simp add: PaddedTensor_init_def stack_padded_def pad_tensor_def functional_pad_def
      to_double_def int64_def)

text \<open>
  Claim C6, amended. Take a list of sequences of lengths below \<open>2 ^ 63\<close>; a requested
  length \<open>pad_len\<close> that is not negative and is shorter than some sequence of the
  list; a sentinel of magnitude at most \<open>2 ^ 53\<close>; and a callback (if any) that
  returns. Then the construction raises nothing: it succeeds, every row of the array
  has length \<open>pad_len\<close>, and the row of each sequence longer than \<open>pad_len\<close> is its
  first \<open>pad_len\<close> elements.
\<close>

theorem short_pad_len_truncates:
  assumes "0 \<le> pad_len"
    and "list_ex (\<lambda>tensor. pad_len < int (length tensor)) tensorlist"
    and "list_all (\<lambda>tensor. int (length tensor) < 2 ^ 63) tensorlist"
    and "\<bar>pidx\<bar> \<le> 2 ^ 53"
    and "returns_normally cb pad_len"
  shows "\<exists>tr self. PaddedTensor_init tensorlist pidx cb (Some pad_len) = (tr, Inr self)
    \<and> length (padded self) = length tensorlist
    \<and> list_all (\<lambda>row. int (length row) = pad_len) (padded self)
    \<and> (\<forall>i<length tensorlist. pad_len < int (length (tensorlist ! i)) \<longrightarrow>
          padded self ! i = take (nat pad_len) (tensorlist ! i))"
proof -
  have ne: "tensorlist \<noteq> []" using assms(2) by auto
  obtain t where "t \<in> set tensorlist" and "pad_len < int (length t)"
    using assms(2) by (auto simp: list_ex_iff)
  moreover have "int (length t) < 2 ^ 63"
    using assms(3) \<open>t \<in> set tensorlist\<close> by (simp add: list_all_iff)
  ultimately have small: "pad_len < 2 ^ 63" by linarith
  let ?rows = "map (\<lambda>t. take (nat pad_len) t @ replicate (nat pad_len - length t) pidx) tensorlist"
  have "list_all (\<lambda>row. int (length row) = pad_len) ?rows"
    using assms(1) by (auto simp: list_all_iff)
  moreover have "?rows ! i = take (nat pad_len) (tensorlist ! i)"
    if "i < length tensorlist" and "pad_len < int (length (tensorlist ! i))" for i
    using that assms(1) by simp
  ultimately show ?thesis
    using init_explicit[OF assms(1) small assms(4) ne assms(3,5)] by simp
qed

theorem short_pad_len_truncates_witness:
  "(0::int) \<le> 2
   \<and> list_ex (\<lambda>tensor. 2 < int (length tensor)) [[1, 2, 3], [4::int]]
   \<and> list_all (\<lambda>tensor. int (length tensor) < 2 ^ 63) [[1, 2, 3], [4::int]]
   \<and> \<bar>0::int\<bar> \<le> 2 ^ 53
   \<and> returns_normally None 2
   \<and> (\<exists>tr self. PaddedTensor_init [[1, 2, 3], [4]] 0 None (Some 2) = (tr, Inr self)
         \<and> padded self ! 0 = [1, 2] \<and> padded self = [[1, 2], [4, 0]])"
proof -
  have h1: "(0::int) \<le> 2" by simp
  have h2: "list_ex (\<lambda>tensor. 2 < int (length tensor)) [[1, 2, 3], [4::int]]" by simp
  have h3: "list_all (\<lambda>tensor. int (length tensor) < 2 ^ 63) [[1, 2, 3], [4::int]]" by simp
  have h4: "\<bar>0::int\<bar> \<le> 2 ^ 53" by simp
  have h5: "returns_normally None 2" by simp
  obtain tr self where
    built: "PaddedTensor_init [[1, 2, 3], [4]] 0 None (Some 2) = (tr, Inr self)"
    and cut: "\<forall>i<length [[1, 2, 3], [4::int]]. 2 < int (length ([[1, 2, 3], [4::int]] ! i)) \<longrightarrow>
          padded self ! i = take (nat 2) ([[1, 2, 3], [4]] ! i)"
    using short_pad_len_truncates[OF h1 h2 h3 h4 h5] by blast
  have "padded self ! 0 = [1, 2]" using cut by (simp add: numeral_2_eq_2)
  moreover have "padded self = [[1, 2], [4, 0]]"
    using built
    by (auto simp: PaddedTensor_init_def stack_padded_def pad_tensor_def functional_pad_def
        to_double_def int64_def numeral_2_eq_2)
  ultimately show ?thesis using built h1 h2 h3 h4 h5 by blast
qed

subsection \<open>The callback\<close>

text \<open>
  Claim C7, as stated, covers every construction with a callback. For the empty list
  and no requested length the maximum cannot be computed; the exception leaves the
  constructor before line 45, and the callback is not called at all.
\<close>

theorem callback_skipped_counterexample:
  "PaddedTensor_init [] 0 (Some quiet_callback) None = ([], Inl ValueError)"
  by (simp add: PaddedTensor_init_def)

text \<open>
  Claim C7, amended. When a callback is supplied and either a length is requested or
  the list is not empty, the callback is called exactly once, with the chosen padded
  length: the requested length if there is one, the maximum length of the sequences
  otherwise.
\<close>

theorem callback_called_once:
  "fst (PaddedTensor_init tensorlist pidx (Some cb) (Some n)) = [n]
   \<and> (tensorlist \<noteq> [] \<longrightarrow>
        fst (PaddedTensor_init tensorlist pidx (Some cb) None) =
          [Max (set (map (\<lambda>tensor. int (length tensor)) tensorlist))])"
proof -
  have "fst (PaddedTensor_init tensorlist pidx (Some cb) (Some n)) = [n]"
    by (simp add: PaddedTensor_init_def split: cb_result.split)
  moreover have "fst (PaddedTensor_init tensorlist pidx (Some cb) None) =
      [Max (set (map (\<lambda>tensor. int (length tensor)) tensorlist))]"
    if "tensorlist \<noteq> []"
    unfolding PaddedTensor_init_def
    by (simp only: chosen_default[OF that]) (simp split: cb_result.split)
  ultimately show ?thesis by blast
qed

theorem callback_called_once_witness:
  "fst (PaddedTensor_init [[1, 2], [1, 2, 3]] 0 (Some (limit_callback 2)) (Some 5)) = [5]
   \<and> [[1, 2], [1, 2, 3::int]] \<noteq> []
   \<and> fst (PaddedTensor_init [[1, 2], [1, 2, 3]] 0 (Some (limit_callback 2)) None) = [3]"
  using callback_called_once[of "[[1, 2], [1, 2, 3]]" 0 "limit_callback 2" 5] by simp

subsection \<open>The empty list\<close>

text \<open>
  Claim C10, as stated, says that a requested length avoids the failure on the empty
  list. The construction fails all the same, with another exception: there is no row
  to stack.
\<close>

theorem empty_list_explicit_pad_len_counterexample:
  "PaddedTensor_init [] 1 None (Some 0) = ([], Inl RuntimeError)"
  by (simp add: PaddedTensor_init_def stack_padded_def)

text \<open>
  Claim C10, amended. For the empty list and no requested length the construction
  raises the value error of the maximum over nothing, before any call of the callback,
  and returns no object. A requested length avoids that error, since the maximum is
  not computed and the requested length is the one chosen; the construction then
  still returns no object: it raises the runtime error of stacking an empty list of
  rows, or the callback's own exception if the callback raises first.
\<close>

theorem empty_list_raises:
  "PaddedTensor_init [] pidx length_msg_callback None = ([], Inl ValueError)
   \<and> chosen_pad_len [] (Some n) = Inr n
   \<and> PaddedTensor_init [] pidx None (Some n) = ([], Inl RuntimeError)
   \<and> PaddedTensor_init [] pidx (Some cb) (Some n) =
       ([n], Inl (case cb n of Returns \<Rightarrow> RuntimeError | Raises \<Rightarrow> CallbackError))"
  by (simp add: PaddedTensor_init_def stack_padded_def split: cb_result.split)

end
